theory Spec2Isabelle
  imports Main "HOL-Library.Multiset"
begin

section \<open>Record model (package models)\<close>

text \<open>
  A \<open>time.Time\<close> is modelled as the instant it denotes (nanoseconds since the epoch),
  so two values are equal exactly when Go's \<open>Time.Equal\<close> holds. The optional due date
  \<open>*time.Time\<close> is an \<open>option\<close>: \<open>None\<close> is the nil pointer.
\<close>

type_synonym Time = int

record Task =
  ID :: string
  Title :: string
  Done :: bool
  CreatedAt :: Time
  DueDate :: "Time option"

section \<open>Errors\<close>

text \<open>
  Errors are values. \<open>TaskNotFound\<close> is \<open>fmt.Errorf("task not found")\<close>;
  \<open>PathError\<close> wraps what the \<open>os\<close> package reports; \<open>JSONError\<close> wraps what
  \<open>encoding/json\<close> reports; \<open>ErrNoRows\<close> is \<open>sql.ErrNoRows\<close>; \<open>DriverError\<close> is
  an error returned by a database driver (constraint violation, closed database,
  database file that cannot be opened, server that does not answer);
  \<open>ConfigError\<close> carries the message built by \<open>fmt.Errorf\<close> in the factory;
  \<open>Wrapped msg e\<close> is \<open>fmt.Errorf(msg + ": %w", e)\<close>.
\<close>

datatype errno = ENOENT | EACCES | EIO

datatype json_error = SyntaxError | UnsupportedValue

datatype driver_error =
  UniqueConstraintFailed | DatabaseClosed | CannotOpenDatabase | ServerUnreachable

datatype error =
    TaskNotFound
  | PathError errno
  | JSONError json_error
  | ErrNoRows
  | DriverError driver_error
  | ConfigError string
  | Wrapped string error

section \<open>The file system seen by the file backend\<close>

text \<open>
  The file backend uses four calls of package \<open>os\<close>: \<open>Stat\<close>, \<open>ReadFile\<close>,
  \<open>WriteFile\<close> and \<open>Rename\<close>. The file system is a map from paths to contents,
  together with the faults of the environment: a path listed in \<open>write_fault\<close> cannot be
  written (missing directory, permissions), a path listed in \<open>read_fault\<close> cannot be read,
  and a path listed in \<open>rename_fault\<close> cannot be the target of a rename. The content type
  \<open>'b\<close> is left open: it is whatever \<open>encoding/json\<close> produces.
\<close>

type_synonym path = string

record 'b filesystem =
  files :: "path \<rightharpoonup> 'b"
  read_fault :: "path \<rightharpoonup> errno"
  write_fault :: "path \<rightharpoonup> errno"
  rename_fault :: "path \<rightharpoonup> errno"

definition Stat :: "'b filesystem \<Rightarrow> path \<Rightarrow> errno option" where
  "Stat fs p = (case files fs p of None \<Rightarrow> Some ENOENT | Some d \<Rightarrow> None)"

definition ReadFile :: "'b filesystem \<Rightarrow> path \<Rightarrow> errno + 'b" where
  "ReadFile fs p =
     (case read_fault fs p of
        Some e \<Rightarrow> Inl e
      | None \<Rightarrow> (case files fs p of None \<Rightarrow> Inl ENOENT | Some d \<Rightarrow> Inr d))"

definition WriteFile :: "path \<Rightarrow> 'b \<Rightarrow> 'b filesystem \<Rightarrow> errno option \<times> 'b filesystem" where
  "WriteFile p d fs =
     (case write_fault fs p of
        Some e \<Rightarrow> (Some e, fs)
      | None \<Rightarrow> (None, fs\<lparr>files := (files fs)(p \<mapsto> d)\<rparr>))"

definition Rename :: "path \<Rightarrow> path \<Rightarrow> 'b filesystem \<Rightarrow> errno option \<times> 'b filesystem" where
  "Rename old new fs =
     (case files fs old of
        None \<Rightarrow> (Some ENOENT, fs)
      | Some d \<Rightarrow>
          (case rename_fault fs new of
             Some e \<Rightarrow> (Some e, fs)
           | None \<Rightarrow> (None, fs\<lparr>files := ((files fs)(old := None))(new \<mapsto> d)\<rparr>)))"

section \<open>The JSON codec\<close>

text \<open>
  \<open>json.MarshalIndent\<close> and \<open>json.Unmarshal\<close> belong to the Go standard library, not to
  this repository, so they are parameters of the model. \<open>codec_ok\<close> is the property of
  the library the storage layer relies on: what was marshalled is unmarshalled to the
  same list of tasks.
\<close>

record 'b codec =
  MarshalIndent :: "Task list \<Rightarrow> json_error + 'b"
  Unmarshal :: "'b \<Rightarrow> json_error + Task list"


text \<open>The codec used to run the model on concrete inputs: a document is the list itself.\<close>

definition plain_codec :: "(Task list) codec" where
  "plain_codec = \<lparr>MarshalIndent = Inr, Unmarshal = Inr\<rparr>"

section \<open>The file backend (json\_storage.go)\<close>

text \<open>
  \<open>JSONStorage\<close> holds the path and a mutex. Every operation runs under the lock from
  start to end, so an operation is a function from the file system before the call to
  the result and the file system after it. Tasks are passed and stored as values: the
  model covers calls with a task that is not nil and store files whose array has no
  null entry.
\<close>

record JSONStorage =
  filepath :: path

definition JSONStorage_load :: "'b codec \<Rightarrow> JSONStorage \<Rightarrow> 'b filesystem \<Rightarrow> error + Task list" where
  "JSONStorage_load cdc js fs =
     (case ReadFile fs (filepath js) of
        Inl e \<Rightarrow> Inl (PathError e)
      | Inr data \<Rightarrow>
          (case Unmarshal cdc data of
             Inl e \<Rightarrow> Inl (JSONError e)
           | Inr tasks \<Rightarrow> Inr tasks))"

definition JSONStorage_save :: "'b codec \<Rightarrow> JSONStorage \<Rightarrow> Task list \<Rightarrow> 'b filesystem \<Rightarrow> error option \<times> 'b filesystem" where
  "JSONStorage_save cdc js tasks fs =
     (case MarshalIndent cdc tasks of
        Inl e \<Rightarrow> (Some (JSONError e), fs)
      | Inr data \<Rightarrow>
          (let tempFile = filepath js @ ''.tmp'' in
           case WriteFile tempFile data fs of
             (Some e, fs1) \<Rightarrow> (Some (PathError e), fs1)
           | (None, fs1) \<Rightarrow>
               (case Rename tempFile (filepath js) fs1 of
                  (Some e, fs2) \<Rightarrow> (Some (PathError e), fs2)
                | (None, fs2) \<Rightarrow> (None, fs2))))"

definition NewJSONStorage :: "'b codec \<Rightarrow> path \<Rightarrow> 'b filesystem \<Rightarrow> (error + JSONStorage) \<times> 'b filesystem" where
  "NewJSONStorage cdc p fs =
     (let js = \<lparr>filepath = p\<rparr> in
      if Stat fs p = Some ENOENT then
        (case JSONStorage_save cdc js [] fs of
           (Some e, fs') \<Rightarrow> (Inl e, fs')
         | (None, fs') \<Rightarrow> (Inr js, fs'))
      else (Inr js, fs))"

definition JSONStorage_Create :: "'b codec \<Rightarrow> JSONStorage \<Rightarrow> Task \<Rightarrow> 'b filesystem \<Rightarrow> error option \<times> 'b filesystem" where
  "JSONStorage_Create cdc js task fs =
     (case JSONStorage_load cdc js fs of
        Inl e \<Rightarrow> (Some e, fs)
      | Inr tasks \<Rightarrow> JSONStorage_save cdc js (tasks @ [task]) fs)"

definition JSONStorage_GetAll :: "'b codec \<Rightarrow> JSONStorage \<Rightarrow> 'b filesystem \<Rightarrow> error + Task list" where
  "JSONStorage_GetAll cdc js fs = JSONStorage_load cdc js fs"

text \<open>The loop of \<open>GetByID\<close>: the first task of the list with the id.\<close>

fun find_task :: "string \<Rightarrow> Task list \<Rightarrow> Task option" where
  "find_task i [] = None"
| "find_task i (task # tasks) = (if ID task = i then Some task else find_task i tasks)"

definition JSONStorage_GetByID :: "'b codec \<Rightarrow> JSONStorage \<Rightarrow> string \<Rightarrow> 'b filesystem \<Rightarrow> error + Task" where
  "JSONStorage_GetByID cdc js i fs =
     (case JSONStorage_load cdc js fs of
        Inl e \<Rightarrow> Inl e
      | Inr tasks \<Rightarrow>
          (case find_task i tasks of
             Some task \<Rightarrow> Inr task
           | None \<Rightarrow> Inl TaskNotFound))"

text \<open>The loop of \<open>Update\<close> stops at the first index whose task has the id.\<close>

fun find_index_of :: "string \<Rightarrow> Task list \<Rightarrow> nat option" where
  "find_index_of i [] = None"
| "find_index_of i (t # tasks) =
     (if ID t = i then Some 0 else map_option Suc (find_index_of i tasks))"

definition JSONStorage_Update :: "'b codec \<Rightarrow> JSONStorage \<Rightarrow> Task \<Rightarrow> 'b filesystem \<Rightarrow> error option \<times> 'b filesystem" where
  "JSONStorage_Update cdc js task fs =
     (case JSONStorage_load cdc js fs of
        Inl e \<Rightarrow> (Some e, fs)
      | Inr tasks \<Rightarrow>
          (case find_index_of (ID task) tasks of
             Some i \<Rightarrow> JSONStorage_save cdc js (tasks[i := task]) fs
           | None \<Rightarrow> (Some TaskNotFound, fs)))"

text \<open>
  The loop of \<open>Delete\<close> carries the slice \<open>filtered\<close> and the flag \<open>found\<close>.
\<close>

fun delete_loop :: "string \<Rightarrow> Task list \<Rightarrow> Task list \<times> bool \<Rightarrow> Task list \<times> bool" where
  "delete_loop i [] acc = acc"
| "delete_loop i (task # tasks) (filtered, found) =
     (if ID task \<noteq> i then delete_loop i tasks (filtered @ [task], found)
      else delete_loop i tasks (filtered, True))"

definition JSONStorage_Delete :: "'b codec \<Rightarrow> JSONStorage \<Rightarrow> string \<Rightarrow> 'b filesystem \<Rightarrow> error option \<times> 'b filesystem" where
  "JSONStorage_Delete cdc js i fs =
     (case JSONStorage_load cdc js fs of
        Inl e \<Rightarrow> (Some e, fs)
      | Inr tasks \<Rightarrow>
          (case delete_loop i tasks ([], False) of
             (filtered, found) \<Rightarrow>
               if \<not> found then (Some TaskNotFound, fs) else JSONStorage_save cdc js filtered fs))"

definition JSONStorage_Close :: "JSONStorage \<Rightarrow> error option" where
  "JSONStorage_Close js = None"

section \<open>The SQL engine seen by the relational backends\<close>

text \<open>
  The table \<open>tasks\<close> has the columns \<open>id\<close> (primary key), \<open>title\<close>, \<open>done\<close>,
  \<open>created_at\<close> and the nullable \<open>due_date\<close>. A database is the list of its rows in
  the order the engine scans them (the order of insertion), and a flag that is set once
  the handle is closed. Each statement the backends send is one function.
\<close>

record row =
  col_id :: string
  col_title :: string
  col_done :: bool
  col_created_at :: Time
  col_due_date :: "Time option"

record db =
  tasks_rows :: "row list"
  closed :: bool

text \<open>\<open>INSERT INTO tasks (id, title, done, created_at, due_date) VALUES (?, ?, ?, ?, ?)\<close>\<close>

definition exec_insert :: "row \<Rightarrow> db \<Rightarrow> error option \<times> db" where
  "exec_insert r d =
     (if closed d then (Some (DriverError DatabaseClosed), d)
      else if col_id r \<in> set (map col_id (tasks_rows d))
        then (Some (DriverError UniqueConstraintFailed), d)
      else (None, d\<lparr>tasks_rows := tasks_rows d @ [r]\<rparr>))"

text \<open>\<open>SELECT id, title, done, created_at, due_date FROM tasks\<close>\<close>

definition query_all :: "db \<Rightarrow> error + row list" where
  "query_all d = (if closed d then Inl (DriverError DatabaseClosed) else Inr (tasks_rows d))"


text \<open>
  \<open>SELECT ... FROM tasks WHERE id = ?\<close>, read through \<open>QueryRow\<close> and \<open>Scan\<close>: the
  first row of the result, or \<open>sql.ErrNoRows\<close>.
\<close>

definition query_row_where_id :: "string \<Rightarrow> db \<Rightarrow> error + row" where
  "query_row_where_id i d =
     (if closed d then Inl (DriverError DatabaseClosed)
      else (case filter (\<lambda>r. col_id r = i) (tasks_rows d) of
              [] \<Rightarrow> Inl ErrNoRows
            | r # rs \<Rightarrow> Inr r))"

text \<open>
  \<open>UPDATE tasks SET title = ?, done = ?, due_date = ? WHERE id = ?\<close>; the number is
  \<open>RowsAffected\<close>.
\<close>

definition exec_update :: "string \<Rightarrow> bool \<Rightarrow> Time option \<Rightarrow> string \<Rightarrow> db \<Rightarrow> (error + nat) \<times> db" where
  "exec_update t dn due i d =
     (if closed d then (Inl (DriverError DatabaseClosed), d)
      else (Inr (length (filter (\<lambda>r. col_id r = i) (tasks_rows d))),
            d\<lparr>tasks_rows :=
                 map (\<lambda>r. if col_id r = i
                           then r\<lparr>col_title := t, col_done := dn, col_due_date := due\<rparr>
                           else r) (tasks_rows d)\<rparr>))"

text \<open>\<open>DELETE FROM tasks WHERE id = ?\<close>; the number is \<open>RowsAffected\<close>.\<close>

definition exec_delete :: "string \<Rightarrow> db \<Rightarrow> (error + nat) \<times> db" where
  "exec_delete i d =
     (if closed d then (Inl (DriverError DatabaseClosed), d)
      else (Inr (length (filter (\<lambda>r. col_id r = i) (tasks_rows d))),
            d\<lparr>tasks_rows := filter (\<lambda>r. col_id r \<noteq> i) (tasks_rows d)\<rparr>))"

section \<open>The SQLite backend\<close>

text \<open>
  \<open>SQLiteStorage\<close> holds the database handle only, so the database stands for it.
  \<open>NewSQLiteStorage\<close> opens the database at a path and runs
  \<open>CREATE TABLE IF NOT EXISTS\<close>: what is at the path belongs to the environment. A
  database that has no table yet gets the empty one; one that cannot be opened gives
  the error of the driver. \<open>RowsAffected\<close> does not fail on this driver.
\<close>

datatype sqlite_file = CannotOpen | NoTable | TasksTable "row list"

definition NewSQLiteStorage :: "(path \<Rightarrow> sqlite_file) \<Rightarrow> path \<Rightarrow> error + db" where
  "NewSQLiteStorage disk dbPath =
     (case disk dbPath of
        CannotOpen \<Rightarrow> Inl (DriverError CannotOpenDatabase)
      | NoTable \<Rightarrow> Inr \<lparr>tasks_rows = [], closed = False\<rparr>
      | TasksTable rs \<Rightarrow> Inr \<lparr>tasks_rows = rs, closed = False\<rparr>)"

definition task_row :: "Task \<Rightarrow> row" where
  "task_row task =
     \<lparr>col_id = ID task, col_title = Title task, col_done = Done task,
      col_created_at = CreatedAt task, col_due_date = DueDate task\<rparr>"

text \<open>
  \<open>Scan\<close> into a fresh \<open>Task\<close> and a \<open>sql.NullTime\<close>; the due date is set only when
  the column is valid (not NULL).
\<close>

definition scan_task :: "row \<Rightarrow> Task" where
  "scan_task r =
     (let task = \<lparr>ID = col_id r, Title = col_title r, Done = col_done r,
                  CreatedAt = col_created_at r, DueDate = None\<rparr>
      in case col_due_date r of
           Some t \<Rightarrow> task\<lparr>DueDate := Some t\<rparr>
         | None \<Rightarrow> task)"

definition SQLiteStorage_Create :: "Task \<Rightarrow> db \<Rightarrow> error option \<times> db" where
  "SQLiteStorage_Create task d = exec_insert (task_row task) d"

definition SQLiteStorage_GetAll :: "db \<Rightarrow> error + Task list" where
  "SQLiteStorage_GetAll d =
     (case query_all d of
        Inl e \<Rightarrow> Inl e
      | Inr rs \<Rightarrow> Inr (map scan_task rs))"

definition SQLiteStorage_GetByID :: "string \<Rightarrow> db \<Rightarrow> error + Task" where
  "SQLiteStorage_GetByID i d =
     (case query_row_where_id i d of
        Inl e \<Rightarrow> Inl e
      | Inr r \<Rightarrow> Inr (scan_task r))"

definition SQLiteStorage_Update :: "Task \<Rightarrow> db \<Rightarrow> error option \<times> db" where
  "SQLiteStorage_Update task d =
     (case exec_update (Title task) (Done task) (DueDate task) (ID task) d of
        (Inl e, d') \<Rightarrow> (Some e, d')
      | (Inr n, d') \<Rightarrow> if n = 0 then (Some ErrNoRows, d') else (None, d'))"

definition SQLiteStorage_Delete :: "string \<Rightarrow> db \<Rightarrow> error option \<times> db" where
  "SQLiteStorage_Delete i d =
     (case exec_delete i d of
        (Inl e, d') \<Rightarrow> (Some e, d')
      | (Inr n, d') \<Rightarrow> if n = 0 then (Some ErrNoRows, d') else (None, d'))"

definition SQLiteStorage_Close :: "db \<Rightarrow> db" where
  "SQLiteStorage_Close d = d\<lparr>closed := True\<rparr>"

section \<open>GetAll of the MySQL and PostgreSQL backends\<close>



section \<open>Backend selection and validation\<close>







type_synonym Duration = int

definition Second :: Duration where
  "Second = 1000000000"




record MongoDBConfig =
  mongo_URI :: string
  mongo_Database :: string
  mongo_Collection :: string
  mongo_ConnectTimeout :: Duration
  mongo_QueryTimeout :: Duration





section \<open>The document backend: contexts and driver calls\<close>

text \<open>
  A \<open>context.Context\<close> is the background context or a context derived from a parent
  with a timeout. \<open>timeout_of\<close> is the time the context leaves to a call that starts
  now: the least timeout on the chain, if there is one.
\<close>

datatype Context = Background | WithTimeout Context Duration

fun timeout_of :: "Context \<Rightarrow> Duration option" where
  "timeout_of Background = None"
| "timeout_of (WithTimeout parent d) =
     (case timeout_of parent of None \<Rightarrow> Some d | Some d' \<Rightarrow> Some (min d' d))"

record MongoDBStorage =
  client :: string
  database :: string
  collection :: string
  ctx :: Context

text \<open>
  \<open>NewMongoDBStorage\<close> connects and pings under the connect timeout, creates the
  indexes, and keeps the client, the database, the collection and a background context.
  How the server at the URI answers belongs to the environment.
\<close>

datatype server_answer = ConnectFails | PingFails | CreateIndexesFails | Ready

definition connect_ctx :: "MongoDBConfig \<Rightarrow> Context" where
  "connect_ctx config = WithTimeout Background (mongo_ConnectTimeout config)"

definition NewMongoDBStorage :: "(string \<Rightarrow> server_answer) \<Rightarrow> MongoDBConfig \<Rightarrow> error + MongoDBStorage" where
  "NewMongoDBStorage server config =
     (case server (mongo_URI config) of
        ConnectFails \<Rightarrow>
          Inl (Wrapped ''failed to connect to MongoDB'' (DriverError ServerUnreachable))
      | PingFails \<Rightarrow>
          Inl (Wrapped ''failed to ping MongoDB'' (DriverError ServerUnreachable))
      | CreateIndexesFails \<Rightarrow>
          Inl (Wrapped ''failed to create indexes'' (DriverError ServerUnreachable))
      | Ready \<Rightarrow>
          Inr \<lparr>client = mongo_URI config, database = mongo_Database config,
                collection = mongo_Collection config, ctx = Background\<rparr>)"

text \<open>
  Each operation derives a context from \<open>ms.ctx\<close> and passes it to one call of the
  driver. The model of an operation is that call: the context and the request. \<open>Find\<close>
  carries the filter and the sort option, \<open>UpdateOne\<close> the filter and the task given to
  \<open>$set\<close>; the others carry the filter or the document.
\<close>

datatype mongo_request =
    InsertOne Task
  | Find "(string \<times> string) list" "(string \<times> int) list"
  | FindOne "(string \<times> string) list"
  | UpdateOne "(string \<times> string) list" Task
  | DeleteOne "(string \<times> string) list"

record driver_call =
  call_ctx :: Context
  call_request :: mongo_request

definition MongoDBStorage_Create :: "MongoDBStorage \<Rightarrow> Task \<Rightarrow> driver_call" where
  "MongoDBStorage_Create ms task =
     \<lparr>call_ctx = WithTimeout (ctx ms) (5 * Second), call_request = InsertOne task\<rparr>"

definition MongoDBStorage_GetAll :: "MongoDBStorage \<Rightarrow> driver_call" where
  "MongoDBStorage_GetAll ms =
     \<lparr>call_ctx = WithTimeout (ctx ms) (10 * Second),
      call_request = Find [] [(''created_at'', -1)]\<rparr>"

definition MongoDBStorage_GetByID :: "MongoDBStorage \<Rightarrow> string \<Rightarrow> driver_call" where
  "MongoDBStorage_GetByID ms i =
     \<lparr>call_ctx = WithTimeout (ctx ms) (5 * Second), call_request = FindOne [(''id'', i)]\<rparr>"

definition MongoDBStorage_Update :: "MongoDBStorage \<Rightarrow> Task \<Rightarrow> driver_call" where
  "MongoDBStorage_Update ms task =
     \<lparr>call_ctx = WithTimeout (ctx ms) (5 * Second),
      call_request = UpdateOne [(''id'', ID task)] task\<rparr>"

definition MongoDBStorage_Delete :: "MongoDBStorage \<Rightarrow> string \<Rightarrow> driver_call" where
  "MongoDBStorage_Delete ms i =
     \<lparr>call_ctx = WithTimeout (ctx ms) (5 * Second), call_request = DeleteOne [(''id'', i)]\<rparr>"

section \<open>Test helpers (test\_helpers.go) and scenarios of the tests\<close>

text \<open>
  \<open>CreateSampleTask\<close> and \<open>CreateSampleTaskWithDueDate\<close> read the clock; here the
  reading \<open>now\<close> is an argument.
\<close>

definition CreateSampleTask :: "string \<Rightarrow> string \<Rightarrow> Time \<Rightarrow> Task" where
  "CreateSampleTask i title now =
     \<lparr>ID = i, Title = title, Done = False, CreatedAt = now, DueDate = None\<rparr>"

definition CreateSampleTaskWithDueDate :: "string \<Rightarrow> string \<Rightarrow> Time \<Rightarrow> Time \<Rightarrow> Task" where
  "CreateSampleTaskWithDueDate i title dueDate now =
     \<lparr>ID = i, Title = title, Done = False, CreatedAt = now, DueDate = Some dueDate\<rparr>"

text \<open>The fresh temporary directory of a test: no file, no fault.\<close>

definition temp_dir :: "'b filesystem" where
  "temp_dir = \<lparr>files = Map.empty, read_fault = Map.empty, write_fault = Map.empty,
                rename_fault = Map.empty\<rparr>"


text \<open>
  The store of the tests: \<open>NewJSONStorage\<close> on a path of the fresh directory. Further
  down, \<open>new_db\<close> is the database \<open>NewSQLiteStorage\<close> returns for a path where no
  database was.
\<close>

definition tasks_json :: JSONStorage where
  "tasks_json = \<lparr>filepath = ''tasks.json''\<rparr>"

definition new_store :: "(Task list) filesystem" where
  "new_store = snd (NewJSONStorage plain_codec ''tasks.json'' temp_dir)"

text \<open>
  The tasks of the concrete scenario of the specification: "Buy milk" as created, and
  its replacement, done and due.
\<close>

definition buy_milk :: Task where
  "buy_milk = CreateSampleTask ''t1'' ''Buy milk'' 100"

definition buy_milk_done :: Task where
  "buy_milk_done =
     \<lparr>ID = ''t1'', Title = ''Buy milk'', Done = True, CreatedAt = 100, DueDate = Some 200\<rparr>"

definition milk_store :: "(Task list) filesystem" where
  "milk_store = snd (JSONStorage_Create plain_codec tasks_json buy_milk new_store)"

definition new_db :: db where
  "new_db = \<lparr>tasks_rows = [], closed = False\<rparr>"

definition milk_db :: db where
  "milk_db = snd (SQLiteStorage_Create buy_milk new_db)"

text \<open>
  The same store in a directory that has become read-only: the temporary file cannot be
  created.
\<close>

definition locked_store :: "(Task list) filesystem" where
  "locked_store = milk_store\<lparr>write_fault := [''tasks.json.tmp'' \<mapsto> EACCES]\<rparr>"

text \<open>
  More values of the tests: a second task, created later; the replacement of "Buy milk"
  with another creation time; the database after both tasks were created.
\<close>

definition pay_rent :: Task where
  "pay_rent = CreateSampleTask ''t2'' ''Pay rent'' 300"

definition buy_milk_redated :: Task where
  "buy_milk_redated =
     \<lparr>ID = ''t1'', Title = ''Buy oat milk'', Done = True, CreatedAt = 999, DueDate = None\<rparr>"






text \<open>
  A document-backend configuration that asks for a query timeout of one second, and the
  storage built from it when the server answers.
\<close>

definition one_second_config :: MongoDBConfig where
  "one_second_config =
     \<lparr>mongo_URI = ''mongodb://localhost:27017'', mongo_Database = ''gotask'',
      mongo_Collection = ''tasks'', mongo_ConnectTimeout = 10 * Second,
      mongo_QueryTimeout = 1 * Second\<rparr>"

definition one_second_storage :: MongoDBStorage where
  "one_second_storage =
     \<lparr>client = ''mongodb://localhost:27017'', database = ''gotask'', collection = ''tasks'',
      ctx = Background\<rparr>"

text \<open>The same store when the real path cannot be replaced by a rename.\<close>

definition blocked_store :: "(Task list) filesystem" where
  "blocked_store = milk_store\<lparr>rename_fault := [''tasks.json'' \<mapsto> EACCES]\<rparr>"

section \<open>Facts about the file backend\<close>

lemma tempFile_neq: "filepath js @ ''.tmp'' \<noteq> filepath js"
  by simp

lemma save_success:
  assumes "JSONStorage_save cdc js ts fs = (None, fs')"
  shows "\<exists>data. MarshalIndent cdc ts = Inr data
           \<and> fs' = fs\<lparr>files := ((files fs)(filepath js @ ''.tmp'' := None))(filepath js \<mapsto> data)\<rparr>"
  using assms
  by (auto simp: JSONStorage_save_def WriteFile_def Rename_def Let_def
           split: sum.splits option.splits prod.splits)

lemma save_failure:
  assumes "JSONStorage_save cdc js ts fs = (Some e, fs')"
  shows "files fs' (filepath js) = files fs (filepath js)
         \<and> read_fault fs' = read_fault fs \<and> write_fault fs' = write_fault fs
         \<and> rename_fault fs' = rename_fault fs \<and> e \<noteq> TaskNotFound"
  using assms
  by (auto simp: JSONStorage_save_def WriteFile_def Rename_def Let_def
           split: sum.splits option.splits prod.splits)





lemma find_index_of_None: "find_index_of i ts = None \<longleftrightarrow> i \<notin> ID ` set ts"
  by (induction ts) auto




lemma delete_loop_eq:
  "delete_loop i ts (filtered, found) =
     (filtered @ filter (\<lambda>t. ID t \<noteq> i) ts, found \<or> i \<in> ID ` set ts)"
  by (induction ts arbitrary: filtered found) auto

lemma load_faults_after_save:
  assumes "JSONStorage_save cdc js ts fs = (None, fs')"
  shows "read_fault fs' = read_fault fs"
  using save_success [OF assms] by auto




lemma Update_not_found:
  "JSONStorage_Update cdc js t fs = (Some TaskNotFound, fs') \<longleftrightarrow>
     fs' = fs \<and> (\<exists>ts. JSONStorage_load cdc js fs = Inr ts \<and> ID t \<notin> ID ` set ts)"
proof
  assume a: "JSONStorage_Update cdc js t fs = (Some TaskNotFound, fs')"
  show "fs' = fs \<and> (\<exists>ts. JSONStorage_load cdc js fs = Inr ts \<and> ID t \<notin> ID ` set ts)"
  proof (cases "JSONStorage_load cdc js fs")
    case (Inl e)
    with a show ?thesis
      by (auto simp: JSONStorage_Update_def JSONStorage_load_def split: sum.splits)
  next
    case (Inr ts)
    show ?thesis
    proof (cases "find_index_of (ID t) ts")
      case None
      with a Inr show ?thesis
        by (simp add: JSONStorage_Update_def find_index_of_None)
    next
      case (Some k)
      with a Inr have "JSONStorage_save cdc js (ts[k := t]) fs = (Some TaskNotFound, fs')"
        by (simp add: JSONStorage_Update_def)
      from save_failure [OF this] show ?thesis by simp
    qed
  qed
next
  assume "fs' = fs \<and> (\<exists>ts. JSONStorage_load cdc js fs = Inr ts \<and> ID t \<notin> ID ` set ts)"
  then show "JSONStorage_Update cdc js t fs = (Some TaskNotFound, fs')"
    by (auto simp: JSONStorage_Update_def find_index_of_None [symmetric])
qed

lemma Delete_not_found:
  "JSONStorage_Delete cdc js i fs = (Some TaskNotFound, fs') \<longleftrightarrow>
     fs' = fs \<and> (\<exists>ts. JSONStorage_load cdc js fs = Inr ts \<and> i \<notin> ID ` set ts)"
proof
  assume a: "JSONStorage_Delete cdc js i fs = (Some TaskNotFound, fs')"
  show "fs' = fs \<and> (\<exists>ts. JSONStorage_load cdc js fs = Inr ts \<and> i \<notin> ID ` set ts)"
  proof (cases "JSONStorage_load cdc js fs")
    case (Inl e)
    with a show ?thesis
      by (auto simp: JSONStorage_Delete_def JSONStorage_load_def split: sum.splits)
  next
    case (Inr ts)
    show ?thesis
    proof (cases "i \<in> ID ` set ts")
      case False
      with a Inr show ?thesis
        by (simp add: JSONStorage_Delete_def delete_loop_eq)
    next
      case True
      with a Inr have "JSONStorage_save cdc js (filter (\<lambda>x. ID x \<noteq> i) ts) fs = (Some TaskNotFound, fs')"
        by (simp add: JSONStorage_Delete_def delete_loop_eq)
      from save_failure [OF this] show ?thesis by simp
    qed
  qed
next
  assume "fs' = fs \<and> (\<exists>ts. JSONStorage_load cdc js fs = Inr ts \<and> i \<notin> ID ` set ts)"
  then show "JSONStorage_Delete cdc js i fs = (Some TaskNotFound, fs')"
    by (auto simp: JSONStorage_Delete_def delete_loop_eq)
qed




lemma save_success_files:
  assumes "JSONStorage_save cdc js ts fs = (None, fs')"
  shows "\<exists>data. MarshalIndent cdc ts = Inr data
           \<and> files fs' = ((files fs)(filepath js @ ''.tmp'' := None))(filepath js \<mapsto> data)
           \<and> files fs' (filepath js @ ''.tmp'') = None
           \<and> files fs' (filepath js) = Some data"
proof -
  from save_success [OF assms] obtain data where m: "MarshalIndent cdc ts = Inr data"
    and f: "fs' = fs\<lparr>files := ((files fs)(filepath js @ ''.tmp'' := None))(filepath js \<mapsto> data)\<rparr>"
    by blast
  from f have "files fs' = ((files fs)(filepath js @ ''.tmp'' := None))(filepath js \<mapsto> data)"
    by simp
  with m show ?thesis
    by (simp add: tempFile_neq)
qed

lemma Create_failure_keeps_file:
  "JSONStorage_Create cdc js t fs = (Some e, fs') \<Longrightarrow>
     files fs' (filepath js) = files fs (filepath js)"
  by (auto simp: JSONStorage_Create_def split: sum.splits dest: save_failure)

lemma Update_failure_keeps_file:
  "JSONStorage_Update cdc js t fs = (Some e, fs') \<Longrightarrow>
     files fs' (filepath js) = files fs (filepath js)"
  by (auto simp: JSONStorage_Update_def split: sum.splits option.splits dest: save_failure)

lemma Delete_failure_keeps_file:
  "JSONStorage_Delete cdc js i fs = (Some e, fs') \<Longrightarrow>
     files fs' (filepath js) = files fs (filepath js)"
  by (auto simp: JSONStorage_Delete_def split: sum.splits prod.splits if_splits dest: save_failure)

lemma save_write_fault:
  "MarshalIndent cdc ts = Inr data \<Longrightarrow> write_fault fs (filepath js @ ''.tmp'') = Some en \<Longrightarrow>
     JSONStorage_save cdc js ts fs = (Some (PathError en), fs)"
  by (simp add: JSONStorage_save_def WriteFile_def)

lemma save_rename_fault:
  "MarshalIndent cdc ts = Inr data \<Longrightarrow> write_fault fs (filepath js @ ''.tmp'') = None \<Longrightarrow>
     rename_fault fs (filepath js) = Some en \<Longrightarrow>
     JSONStorage_save cdc js ts fs
       = (Some (PathError en), fs\<lparr>files := (files fs)(filepath js @ ''.tmp'' \<mapsto> data)\<rparr>)"
  by (simp add: JSONStorage_save_def WriteFile_def Rename_def)


section \<open>Facts about the relational backends\<close>



















section \<open>Facts about validation and the factory\<close>






section \<open>Running the model on concrete stores\<close>

lemmas run_defs = NewJSONStorage_def JSONStorage_save_def JSONStorage_load_def
  JSONStorage_Create_def JSONStorage_GetAll_def JSONStorage_GetByID_def JSONStorage_Update_def
  JSONStorage_Delete_def Stat_def ReadFile_def WriteFile_def Rename_def plain_codec_def
  temp_dir_def tasks_json_def new_store_def CreateSampleTask_def
  CreateSampleTaskWithDueDate_def buy_milk_def buy_milk_done_def milk_store_def Let_def

lemmas run_sql_defs = SQLiteStorage_Create_def SQLiteStorage_GetAll_def
  SQLiteStorage_GetByID_def SQLiteStorage_Update_def SQLiteStorage_Delete_def
  new_db_def exec_insert_def exec_update_def exec_delete_def query_all_def
  query_row_where_id_def task_row_def scan_task_def milk_db_def CreateSampleTask_def
  CreateSampleTaskWithDueDate_def buy_milk_def buy_milk_done_def Let_def

lemma new_store_eval:
  "NewJSONStorage plain_codec ''tasks.json'' temp_dir = (Inr tasks_json, new_store)"
  by (simp add: run_defs)


lemma milk_store_load: "JSONStorage_load plain_codec tasks_json milk_store = Inr [buy_milk]"
  by (simp add: run_defs)

lemma new_db_eval: "NewSQLiteStorage (\<lambda>p. NoTable) ''tasks.db'' = Inr new_db"
  by (simp add: NewSQLiteStorage_def new_db_def)


lemma locked_store_file: "files locked_store ''tasks.json'' = Some [buy_milk]"
  by (simp add: run_defs locked_store_def)



section \<open>The claims\<close>

text \<open>
  C1 (Create and ids already stored). On the file backend \<open>Create\<close> appends without
  looking for the id: on the new store, creating a task with id "t1" and then another
  task with id "t1" succeeds both times, and \<open>GetAll\<close> returns both records. On the
  SQLite backend the second \<open>Create\<close> fails on the primary key and the table keeps one
  record.
\<close>

theorem json_create_twice_same_id:
  "fst (JSONStorage_Create plain_codec tasks_json buy_milk new_store) = None
   \<and> fst (JSONStorage_Create plain_codec tasks_json buy_milk_redated milk_store) = None
   \<and> JSONStorage_GetAll plain_codec tasks_json
        (snd (JSONStorage_Create plain_codec tasks_json buy_milk_redated milk_store))
       = Inr [buy_milk, buy_milk_redated]
   \<and> ID buy_milk = ID buy_milk_redated
   \<and> fst (SQLiteStorage_Create buy_milk new_db) = None
   \<and> SQLiteStorage_Create buy_milk_redated milk_db
       = (Some (DriverError UniqueConstraintFailed), milk_db)
   \<and> SQLiteStorage_GetAll milk_db = Inr [buy_milk]"
  by (simp add: run_defs run_sql_defs buy_milk_redated_def)








text \<open>
  C5 (write to the temporary path, then rename). A successful \<open>Create\<close>, \<open>Update\<close> or
  \<open>Delete\<close> of the file backend marshals the whole list it holds in memory and leaves the
  file system as it was except that the real path holds the marshalled list and the
  path with ".tmp" appended holds no file. A mutation that fails, before the rename or
  in it, leaves the contents of the real path as they were. The order of the two steps
  of \<open>save\<close> shows in its failures: when the temporary path cannot be written nothing
  changes, and when the rename fails the marshalled list is at the temporary path and
  the real path is as before.
\<close>

theorem mutation_persists_through_rename:
  "(JSONStorage_Create cdc js t fs = (None, fs1) \<longrightarrow>
      (\<exists>ts data. JSONStorage_load cdc js fs = Inr ts \<and> MarshalIndent cdc (ts @ [t]) = Inr data
         \<and> files fs1 = ((files fs)(filepath js @ ''.tmp'' := None))(filepath js \<mapsto> data)
         \<and> files fs1 (filepath js @ ''.tmp'') = None))
   \<and> (JSONStorage_Update cdc js u fs = (None, fs2) \<longrightarrow>
      (\<exists>ts k data. JSONStorage_load cdc js fs = Inr ts \<and> find_index_of (ID u) ts = Some k
         \<and> MarshalIndent cdc (ts[k := u]) = Inr data
         \<and> files fs2 = ((files fs)(filepath js @ ''.tmp'' := None))(filepath js \<mapsto> data)
         \<and> files fs2 (filepath js @ ''.tmp'') = None))
   \<and> (JSONStorage_Delete cdc js i fs = (None, fs3) \<longrightarrow>
      (\<exists>ts data. JSONStorage_load cdc js fs = Inr ts
         \<and> MarshalIndent cdc (filter (\<lambda>x. ID x \<noteq> i) ts) = Inr data
         \<and> files fs3 = ((files fs)(filepath js @ ''.tmp'' := None))(filepath js \<mapsto> data)
         \<and> files fs3 (filepath js @ ''.tmp'') = None))
   \<and> (JSONStorage_Create cdc js t fs = (Some e, fs4)
        \<longrightarrow> files fs4 (filepath js) = files fs (filepath js))
   \<and> (JSONStorage_Update cdc js u fs = (Some e, fs5)
        \<longrightarrow> files fs5 (filepath js) = files fs (filepath js))
   \<and> (JSONStorage_Delete cdc js i fs = (Some e, fs6)
        \<longrightarrow> files fs6 (filepath js) = files fs (filepath js))
   \<and> (MarshalIndent cdc ts0 = Inr data0 \<and> write_fault fs (filepath js @ ''.tmp'') = Some en
        \<longrightarrow> JSONStorage_save cdc js ts0 fs = (Some (PathError en), fs))
   \<and> (MarshalIndent cdc ts0 = Inr data0 \<and> write_fault fs (filepath js @ ''.tmp'') = None
          \<and> rename_fault fs (filepath js) = Some en
        \<longrightarrow> JSONStorage_save cdc js ts0 fs
            = (Some (PathError en),
               fs\<lparr>files := (files fs)(filepath js @ ''.tmp'' \<mapsto> data0)\<rparr>))"
proof (intro conjI impI)
  assume "JSONStorage_Create cdc js t fs = (None, fs1)"
  then obtain ts where l: "JSONStorage_load cdc js fs = Inr ts"
    and s: "JSONStorage_save cdc js (ts @ [t]) fs = (None, fs1)"
    by (auto simp: JSONStorage_Create_def split: sum.splits)
  from save_success_files [OF s] l
  show "\<exists>ts data. JSONStorage_load cdc js fs = Inr ts \<and> MarshalIndent cdc (ts @ [t]) = Inr data
         \<and> files fs1 = ((files fs)(filepath js @ ''.tmp'' := None))(filepath js \<mapsto> data)
         \<and> files fs1 (filepath js @ ''.tmp'') = None"
    by blast
next
  assume "JSONStorage_Update cdc js u fs = (None, fs2)"
  then obtain ts k where l: "JSONStorage_load cdc js fs = Inr ts"
    and k: "find_index_of (ID u) ts = Some k"
    and s: "JSONStorage_save cdc js (ts[k := u]) fs = (None, fs2)"
    by (auto simp: JSONStorage_Update_def split: sum.splits option.splits)
  from save_success_files [OF s] l k
  show "\<exists>ts k data. JSONStorage_load cdc js fs = Inr ts \<and> find_index_of (ID u) ts = Some k
         \<and> MarshalIndent cdc (ts[k := u]) = Inr data
         \<and> files fs2 = ((files fs)(filepath js @ ''.tmp'' := None))(filepath js \<mapsto> data)
         \<and> files fs2 (filepath js @ ''.tmp'') = None"
    by blast
next
  assume "JSONStorage_Delete cdc js i fs = (None, fs3)"
  then obtain ts where l: "JSONStorage_load cdc js fs = Inr ts"
    and s: "JSONStorage_save cdc js (filter (\<lambda>x. ID x \<noteq> i) ts) fs = (None, fs3)"
    by (auto simp: JSONStorage_Delete_def delete_loop_eq split: sum.splits if_splits)
  from save_success_files [OF s] l
  show "\<exists>ts data. JSONStorage_load cdc js fs = Inr ts
         \<and> MarshalIndent cdc (filter (\<lambda>x. ID x \<noteq> i) ts) = Inr data
         \<and> files fs3 = ((files fs)(filepath js @ ''.tmp'' := None))(filepath js \<mapsto> data)
         \<and> files fs3 (filepath js @ ''.tmp'') = None"
    by blast
next
  assume "JSONStorage_Create cdc js t fs = (Some e, fs4)"
  then show "files fs4 (filepath js) = files fs (filepath js)"
    by (rule Create_failure_keeps_file)
next
  assume "JSONStorage_Update cdc js u fs = (Some e, fs5)"
  then show "files fs5 (filepath js) = files fs (filepath js)"
    by (rule Update_failure_keeps_file)
next
  assume "JSONStorage_Delete cdc js i fs = (Some e, fs6)"
  then show "files fs6 (filepath js) = files fs (filepath js)"
    by (rule Delete_failure_keeps_file)
next
  assume "MarshalIndent cdc ts0 = Inr data0 \<and> write_fault fs (filepath js @ ''.tmp'') = Some en"
  then show "JSONStorage_save cdc js ts0 fs = (Some (PathError en), fs)"
    by (simp add: save_write_fault)
next
  assume "MarshalIndent cdc ts0 = Inr data0 \<and> write_fault fs (filepath js @ ''.tmp'') = None
          \<and> rename_fault fs (filepath js) = Some en"
  then show "JSONStorage_save cdc js ts0 fs
            = (Some (PathError en),
               fs\<lparr>files := (files fs)(filepath js @ ''.tmp'' \<mapsto> data0)\<rparr>)"
    by (simp add: save_rename_fault)
qed

theorem mutation_persists_through_rename_witness:
  "fst (JSONStorage_Create plain_codec tasks_json (CreateSampleTask ''t2'' ''Pay rent'' 300) milk_store) = None
   \<and> files (snd (JSONStorage_Create plain_codec tasks_json (CreateSampleTask ''t2'' ''Pay rent'' 300) milk_store))
        ''tasks.json.tmp'' = None
   \<and> files (snd (JSONStorage_Create plain_codec tasks_json (CreateSampleTask ''t2'' ''Pay rent'' 300) milk_store))
        ''tasks.json'' = Some [buy_milk, CreateSampleTask ''t2'' ''Pay rent'' 300]
   \<and> fst (JSONStorage_Update plain_codec tasks_json buy_milk_done milk_store) = None
   \<and> files (snd (JSONStorage_Update plain_codec tasks_json buy_milk_done milk_store))
        ''tasks.json.tmp'' = None
   \<and> fst (JSONStorage_Delete plain_codec tasks_json ''t1'' milk_store) = None
   \<and> files (snd (JSONStorage_Delete plain_codec tasks_json ''t1'' milk_store))
        ''tasks.json.tmp'' = None
   \<and> fst (JSONStorage_Create plain_codec tasks_json (CreateSampleTask ''t2'' ''Pay rent'' 300) locked_store)
        = Some (PathError EACCES)
   \<and> files (snd (JSONStorage_Create plain_codec tasks_json (CreateSampleTask ''t2'' ''Pay rent'' 300) locked_store))
        ''tasks.json'' = Some [buy_milk]
   \<and> fst (JSONStorage_Update plain_codec tasks_json buy_milk_done locked_store) = Some (PathError EACCES)
   \<and> files (snd (JSONStorage_Update plain_codec tasks_json buy_milk_done locked_store))
        ''tasks.json'' = Some [buy_milk]
   \<and> fst (JSONStorage_Delete plain_codec tasks_json ''t1'' locked_store) = Some (PathError EACCES)
   \<and> files (snd (JSONStorage_Delete plain_codec tasks_json ''t1'' locked_store))
        ''tasks.json'' = Some [buy_milk]
   \<and> JSONStorage_save plain_codec tasks_json [pay_rent] locked_store
       = (Some (PathError EACCES), locked_store)
   \<and> fst (JSONStorage_save plain_codec tasks_json [pay_rent] blocked_store)
       = Some (PathError EACCES)
   \<and> files (snd (JSONStorage_save plain_codec tasks_json [pay_rent] blocked_store))
        ''tasks.json.tmp'' = Some [pay_rent]
   \<and> files (snd (JSONStorage_save plain_codec tasks_json [pay_rent] blocked_store))
        ''tasks.json'' = Some [buy_milk]"
proof -
  let ?t = "CreateSampleTask ''t2'' ''Pay rent'' 300"
  let ?fs1 = "snd (JSONStorage_Create plain_codec tasks_json ?t milk_store)"
  let ?fs2 = "snd (JSONStorage_Update plain_codec tasks_json buy_milk_done milk_store)"
  let ?fs3 = "snd (JSONStorage_Delete plain_codec tasks_json ''t1'' milk_store)"
  let ?fs4 = "snd (JSONStorage_Create plain_codec tasks_json ?t locked_store)"
  let ?fs5 = "snd (JSONStorage_Update plain_codec tasks_json buy_milk_done locked_store)"
  let ?fs6 = "snd (JSONStorage_Delete plain_codec tasks_json ''t1'' locked_store)"
  have p: "filepath tasks_json = ''tasks.json''"
    and q: "''tasks.json'' @ ''.tmp'' = ''tasks.json.tmp''"
    by (simp_all add: tasks_json_def)
  have f1: "fst (JSONStorage_Create plain_codec tasks_json ?t milk_store) = None"
    by (simp add: run_defs)
  then have h1: "JSONStorage_Create plain_codec tasks_json ?t milk_store = (None, ?fs1)"
    by (simp add: prod_eq_iff)
  have f2: "fst (JSONStorage_Update plain_codec tasks_json buy_milk_done milk_store) = None"
    by (simp add: run_defs)
  then have h2: "JSONStorage_Update plain_codec tasks_json buy_milk_done milk_store = (None, ?fs2)"
    by (simp add: prod_eq_iff)
  have f3: "fst (JSONStorage_Delete plain_codec tasks_json ''t1'' milk_store) = None"
    by (simp add: run_defs)
  then have h3: "JSONStorage_Delete plain_codec tasks_json ''t1'' milk_store = (None, ?fs3)"
    by (simp add: prod_eq_iff)
  have f4: "fst (JSONStorage_Create plain_codec tasks_json ?t locked_store) = Some (PathError EACCES)"
    by (simp add: run_defs locked_store_def)
  then have h4: "JSONStorage_Create plain_codec tasks_json ?t locked_store
      = (Some (PathError EACCES), ?fs4)"
    by (simp add: prod_eq_iff)
  have f5: "fst (JSONStorage_Update plain_codec tasks_json buy_milk_done locked_store)
      = Some (PathError EACCES)"
    by (simp add: run_defs locked_store_def)
  then have h5: "JSONStorage_Update plain_codec tasks_json buy_milk_done locked_store
      = (Some (PathError EACCES), ?fs5)"
    by (simp add: prod_eq_iff)
  have f6: "fst (JSONStorage_Delete plain_codec tasks_json ''t1'' locked_store)
      = Some (PathError EACCES)"
    by (simp add: run_defs locked_store_def)
  then have h6: "JSONStorage_Delete plain_codec tasks_json ''t1'' locked_store
      = (Some (PathError EACCES), ?fs6)"
    by (simp add: prod_eq_iff)
  have m: "MarshalIndent plain_codec [pay_rent] = Inr [pay_rent]"
    by (simp add: plain_codec_def)
  have w1: "write_fault locked_store ''tasks.json.tmp'' = Some EACCES"
    by (simp add: locked_store_def)
  have w2: "write_fault blocked_store ''tasks.json.tmp'' = None"
    and w3: "rename_fault blocked_store ''tasks.json'' = Some EACCES"
    and w4: "files blocked_store ''tasks.json'' = Some [buy_milk]"
    by (simp_all add: run_defs blocked_store_def)
  note T = mutation_persists_through_rename [of plain_codec tasks_json ?t milk_store ?fs1
      buy_milk_done ?fs2 "''t1''" ?fs3 "PathError EACCES" ?fs4 ?fs5 ?fs6 "[pay_rent]"
      "[pay_rent]" EACCES, unfolded p q]
  note U = mutation_persists_through_rename [of plain_codec tasks_json ?t locked_store ?fs1
      buy_milk_done ?fs2 "''t1''" ?fs3 "PathError EACCES" ?fs4 ?fs5 ?fs6 "[pay_rent]"
      "[pay_rent]" EACCES, unfolded p q]
  note V = mutation_persists_through_rename [of plain_codec tasks_json ?t blocked_store ?fs1
      buy_milk_done ?fs2 "''t1''" ?fs3 "PathError EACCES" ?fs4 ?fs5 ?fs6 "[pay_rent]"
      "[pay_rent]" EACCES, unfolded p q]
  from U m w1 have c7: "JSONStorage_save plain_codec tasks_json [pay_rent] locked_store
      = (Some (PathError EACCES), locked_store)"
    by blast
  from V m w2 w3 have c8: "JSONStorage_save plain_codec tasks_json [pay_rent] blocked_store
      = (Some (PathError EACCES),
         blocked_store\<lparr>files := (files blocked_store)(''tasks.json.tmp'' \<mapsto> [pay_rent])\<rparr>)"
    by blast
  from c8 have c8a: "fst (JSONStorage_save plain_codec tasks_json [pay_rent] blocked_store)
      = Some (PathError EACCES)"
    and c8b: "files (snd (JSONStorage_save plain_codec tasks_json [pay_rent] blocked_store))
      ''tasks.json.tmp'' = Some [pay_rent]"
    and c8c: "files (snd (JSONStorage_save plain_codec tasks_json [pay_rent] blocked_store))
      ''tasks.json'' = Some [buy_milk]"
    by (simp_all add: w4)
  from T h1 obtain ts data where l: "JSONStorage_load plain_codec tasks_json milk_store = Inr ts"
    and m: "MarshalIndent plain_codec (ts @ [?t]) = Inr data"
    and f: "files ?fs1 = ((files milk_store)(''tasks.json.tmp'' := None))(''tasks.json'' \<mapsto> data)"
    and c1: "files ?fs1 ''tasks.json.tmp'' = None"
    by blast
  from l have "ts = [buy_milk]"
    by (simp add: milk_store_load)
  with m have "data = [buy_milk, ?t]"
    by (simp add: plain_codec_def)
  with f have c1': "files ?fs1 ''tasks.json'' = Some [buy_milk, ?t]"
    by simp
  from T h2 have c2: "files ?fs2 ''tasks.json.tmp'' = None"
    by blast
  from T h3 have c3: "files ?fs3 ''tasks.json.tmp'' = None"
    by blast
  from U h4 have c4: "files ?fs4 ''tasks.json'' = Some [buy_milk]"
    unfolding locked_store_file by blast
  from U h5 have c5: "files ?fs5 ''tasks.json'' = Some [buy_milk]"
    unfolding locked_store_file by blast
  from U h6 have c6: "files ?fs6 ''tasks.json'' = Some [buy_milk]"
    unfolding locked_store_file by blast
  from f1 c1 c1' f2 c2 f3 c3 f4 c4 f5 c5 f6 c6 c7 c8a c8b c8c show ?thesis
    by (intro conjI)
qed







text \<open>
  C8 (timeouts of the document backend). \<open>NewMongoDBStorage\<close> connects under the
  configured connect timeout, but the storage it builds from a configuration whose
  \<open>QueryTimeout\<close> is one second runs \<open>Create\<close>, \<open>GetByID\<close>, \<open>Update\<close> and \<open>Delete\<close> under
  five seconds and \<open>GetAll\<close> under ten: the operations use constants, and the
  configured query timeout is not kept.
\<close>

theorem mongo_timeouts_ignore_config:
  "NewMongoDBStorage (\<lambda>uri. Ready) one_second_config = Inr one_second_storage
   \<and> timeout_of (connect_ctx one_second_config) = Some (mongo_ConnectTimeout one_second_config)
   \<and> mongo_QueryTimeout one_second_config = 1 * Second
   \<and> timeout_of (call_ctx (MongoDBStorage_Create one_second_storage buy_milk)) = Some (5 * Second)
   \<and> timeout_of (call_ctx (MongoDBStorage_GetAll one_second_storage)) = Some (10 * Second)
   \<and> timeout_of (call_ctx (MongoDBStorage_GetByID one_second_storage ''t1'')) = Some (5 * Second)
   \<and> timeout_of (call_ctx (MongoDBStorage_Update one_second_storage buy_milk_done)) = Some (5 * Second)
   \<and> timeout_of (call_ctx (MongoDBStorage_Delete one_second_storage ''t1'')) = Some (5 * Second)
   \<and> 5 * Second \<noteq> mongo_QueryTimeout one_second_config
   \<and> 10 * Second \<noteq> mongo_QueryTimeout one_second_config"
  by (simp add: NewMongoDBStorage_def connect_ctx_def one_second_config_def
      one_second_storage_def MongoDBStorage_Create_def MongoDBStorage_GetAll_def
      MongoDBStorage_GetByID_def MongoDBStorage_Update_def MongoDBStorage_Delete_def Second_def)

text \<open>
  C9 (a failed Update or Delete leaves the store alone). On the file backend, when
  \<open>Update\<close> or \<open>Delete\<close> returns "task not found", the file system after the call is the
  file system before it: nothing was written, not even the temporary file. The error is
  returned whenever the store loads and no stored task has the id.
\<close>

theorem not_found_leaves_store:
  "(JSONStorage_Update cdc js t fs = (Some TaskNotFound, fs') \<longrightarrow> fs' = fs)
   \<and> (JSONStorage_Delete cdc js i fs = (Some TaskNotFound, fs') \<longrightarrow> fs' = fs)
   \<and> (JSONStorage_load cdc js fs = Inr ts \<and> ID t \<notin> ID ` set ts
        \<longrightarrow> JSONStorage_Update cdc js t fs = (Some TaskNotFound, fs))
   \<and> (JSONStorage_load cdc js fs = Inr ts \<and> i \<notin> ID ` set ts
        \<longrightarrow> JSONStorage_Delete cdc js i fs = (Some TaskNotFound, fs))"
  by (simp add: Update_not_found Delete_not_found)

theorem not_found_leaves_store_witness:
  "JSONStorage_load plain_codec tasks_json milk_store = Inr [buy_milk]
   \<and> JSONStorage_Update plain_codec tasks_json (CreateSampleTask ''t2'' ''Pay rent'' 300) milk_store
       = (Some TaskNotFound, milk_store)
   \<and> JSONStorage_Delete plain_codec tasks_json ''t2'' milk_store = (Some TaskNotFound, milk_store)
   \<and> JSONStorage_GetAll plain_codec tasks_json milk_store = Inr [buy_milk]"
proof -
  let ?t = "CreateSampleTask ''t2'' ''Pay rent'' 300"
  have h1: "JSONStorage_load plain_codec tasks_json milk_store = Inr [buy_milk]"
    by (rule milk_store_load)
  have h2: "ID ?t \<notin> ID ` set [buy_milk]" and h3: "''t2'' \<notin> ID ` set [buy_milk]"
    by (simp_all add: CreateSampleTask_def buy_milk_def)
  note T = not_found_leaves_store [of plain_codec tasks_json ?t milk_store milk_store
      "''t2''" "[buy_milk]"]
  from T h1 h2 have c1: "JSONStorage_Update plain_codec tasks_json ?t milk_store
      = (Some TaskNotFound, milk_store)"
    by blast
  from T h1 h3 have c2: "JSONStorage_Delete plain_codec tasks_json ''t2'' milk_store
      = (Some TaskNotFound, milk_store)"
    by blast
  from T c1 c2 have "milk_store = milk_store"
    by blast
  with h1 have c3: "JSONStorage_GetAll plain_codec tasks_json milk_store = Inr [buy_milk]"
    by (simp add: JSONStorage_GetAll_def)
  from h1 c1 c2 c3 show ?thesis
    by (intro conjI)
qed



end
